theory Spec2Isabelle
  imports Complex_Main
begin

section \<open>TruthVerify: the trust-score aggregation\<close>

text \<open>
  A shallow embedding of the trust engine (class \<open>TrustEngine\<close>), of the helpers
  \<open>calculateTemporalScore\<close> and \<open>calculateTrustScore\<close> of \<open>common/utils.ts\<close>, and of the
  content script's late merge of the AI-content result (\<open>analyzeAiContent\<close>,
  \<open>recalculateTrustScore\<close>).

  Numbers. A finite JavaScript number is a \<^typ>\<open>real\<close>, and the arithmetic of the code is
  the exact one, with three exceptions.
  \<^item> A weight read from a configuration object that lacks the key is \<open>undefined\<close>, and turns
    into \<open>NaN\<close> as soon as it enters arithmetic. Both are \<open>None\<close> of the type \<open>jsnum\<close>.
  \<^item> \<open>Math.round\<close> is not continuous: on a tie the last-place error of the double it is applied
    to decides between two integers. The rounding error of that double is a parameter of
    \<open>recalculateTrustScore\<close>, where the rounded number becomes the trust score. (The other
    \<open>Math.round\<close> of the code only feeds a details text.) The tests \<open>totalWeight > 0\<close> are
    taken on the exact sums.
  \<^item> A division by zero gives an infinity or \<open>NaN\<close>. Where a property is about a divisor
    being nonzero, the division is the partial \<open>js_divide\<close>.
\<close>

subsection \<open>JavaScript numbers and strings\<close>

type_synonym jsnum = "real option"

definition js_add :: "jsnum \<Rightarrow> jsnum \<Rightarrow> jsnum" where
  "js_add a b =
     (case a of None \<Rightarrow> None
      | Some x \<Rightarrow> (case b of None \<Rightarrow> None | Some y \<Rightarrow> Some (x + y)))"

definition js_mul :: "jsnum \<Rightarrow> jsnum \<Rightarrow> jsnum" where
  "js_mul a b =
     (case a of None \<Rightarrow> None
      | Some x \<Rightarrow> (case b of None \<Rightarrow> None | Some y \<Rightarrow> Some (x * y)))"

text \<open>\<open>a > 0\<close>: every comparison with \<open>NaN\<close> is false.\<close>

definition js_positive :: "jsnum \<Rightarrow> bool" where
  "js_positive a = (case a of None \<Rightarrow> False | Some x \<Rightarrow> 0 < x)"

text \<open>\<open>x / y\<close> where the divisor may be zero: \<open>Infinity\<close>, \<open>-Infinity\<close> or \<open>NaN\<close> then, none of
  them a finite number.\<close>

definition js_divide :: "real \<Rightarrow> real \<Rightarrow> real option" where
  "js_divide x y = (if y = 0 then None else Some (x / y))"

text \<open>\<open>Math.round\<close>: the nearest integer, a tie going up.\<close>

definition Math_round :: "real \<Rightarrow> real" where
  "Math_round x = of_int \<lfloor>x + 1 / 2\<rfloor>"

text \<open>\<open>String.prototype.trim\<close> on the ASCII white space.\<close>

definition is_space :: "char \<Rightarrow> bool" where
  "is_space c = (c = CHR '' '' \<or> c = CHR 0x09 \<or> c = CHR 0x0A \<or> c = CHR 0x0B
     \<or> c = CHR 0x0C \<or> c = CHR 0x0D)"

definition trim :: "string \<Rightarrow> string" where
  "trim s = rev (dropWhile is_space (rev (dropWhile is_space s)))"

text \<open>
  What the code takes from its environment: the clock (\<open>Date.now()\<close>, in milliseconds) and
  the two conversions of a number to text, \<open>`${x}`\<close> and \<open>x.toFixed(1)\<close>, whose digits no
  property below depends on.
\<close>

record js_env =
  Date_now :: int
  toString :: "real \<Rightarrow> string"
  toFixed1 :: "real \<Rightarrow> string"

subsection \<open>The data model (\<open>common/types.ts\<close>)\<close>

datatype CredentialStatus = Valid | Invalid | Revoked | Expired | Unknown

datatype ManipulationType = Deepfake | Photoshop | AiGenerated | Other | NoManipulation

fun manipulationTypeText :: "ManipulationType \<Rightarrow> string" where
  "manipulationTypeText Deepfake = ''deepfake''"
| "manipulationTypeText Photoshop = ''photoshop''"
| "manipulationTypeText AiGenerated = ''ai-generated''"
| "manipulationTypeText Other = ''other''"
| "manipulationTypeText NoManipulation = ''none''"

text \<open>A \<open>Date\<close> is its time value in milliseconds. Fields of type \<open>Record<string, any>\<close> and
  the lists that the engine never reads are left out of the input records.\<close>

record CredentialVerificationResult =
  status :: CredentialStatus
  issuer :: "string option"
  issuanceDate :: "int option"
  revocationStatus :: "bool option"

record MediaAnalysisResult =
  manipulationProbability :: real
  manipulationType :: "ManipulationType option"
  confidence :: real

record TextAnalysisResult =
  misinformationProbability :: real
  sentiment :: "real option"
  language :: "string option"

record CrossValidationResult =
  sourcesChecked :: real
  sourcesCorroborating :: real
  corroboratingSources :: "string list option"

record VerificationFactor =
  name :: string
  description :: string
  score :: real
  weight :: jsnum
  details :: "string option"
  icon :: "string option"

record AiContentAnalysisResult =
  isAiGenerated :: bool
  aiScore :: real
  detectionConfidence :: real
  aiDetails :: "string option"

record VerificationResult =
  trustScore :: jsnum
  sourceVerified :: bool
  technicalAnalysisScore :: real
  communityRating :: "real option"
  credentialIssuanceDate :: "int option"
  crossValidation :: "CrossValidationResult option"
  factors :: "VerificationFactor list"
  contentUrl :: string
  verificationTimestamp :: int
  aiContentAnalysis :: "AiContentAnalysisResult option"

subsection \<open>\<open>common/utils.ts\<close>\<close>

definition calculateTemporalScore :: "js_env \<Rightarrow> int option \<Rightarrow> real" where
  "calculateTemporalScore env issued =
     (case issued of
        None \<Rightarrow> 0
      | Some t \<Rightarrow>
          (let ageDays = real_of_int (Date_now env - t) / (1000 * 86400)
           in exp (- ageDays / 30)))"

text \<open>The \<open>forEach\<close> that adds up \<open>totalScore\<close> and \<open>totalWeight\<close>, shared by
  \<open>calculateTrustScore\<close> and \<open>TrustEngine.calculateScore\<close>.\<close>

primrec accumulate :: "VerificationFactor list \<Rightarrow> jsnum \<times> jsnum \<Rightarrow> jsnum \<times> jsnum" where
  "accumulate [] totals = totals"
| "accumulate (f # fs) totals =
     accumulate fs
       (js_add (fst totals) (js_mul (Some (score f)) (weight f)),
        js_add (snd totals) (weight f))"

text \<open>\<open>totalWeight > 0 ? Math.min(100, Math.max(0, totalScore / totalWeight)) : 0\<close>. The
  division is reached with a positive divisor only; \<open>Math.max\<close> and \<open>Math.min\<close> return
  \<open>NaN\<close> on a \<open>NaN\<close> argument.\<close>

definition clampedAverage :: "jsnum \<times> jsnum \<Rightarrow> jsnum" where
  "clampedAverage totals =
     (if js_positive (snd totals)
      then (case fst totals of
              None \<Rightarrow> None
            | Some s \<Rightarrow> Some (min 100 (max 0 (s / the (snd totals)))))
      else Some 0)"


subsection \<open>\<open>TrustEngine\<close>\<close>

record TrustEngine =
  defaultWeights :: "string \<rightharpoonup> real"
  weights :: "string \<rightharpoonup> real"

definition builtinWeights :: "string \<rightharpoonup> real" where
  "builtinWeights =
     [''sourceVerification'' \<mapsto> 0.35,
      ''technicalAnalysis'' \<mapsto> 0.25,
      ''communityRating'' \<mapsto> 0.15,
      ''temporalFreshness'' \<mapsto> 0.15,
      ''crossValidation'' \<mapsto> 0.10]"

text \<open>\<open>this.weights = weights || this.defaultWeights\<close>: an object is truthy, also an
  empty one, so only a missing argument takes the right-hand side.\<close>

definition newTrustEngine :: "(string \<rightharpoonup> real) option \<Rightarrow> TrustEngine" where
  "newTrustEngine ws =
     \<lparr>defaultWeights = builtinWeights,
      weights = (case ws of None \<Rightarrow> builtinWeights | Some w \<Rightarrow> w)\<rparr>"

text \<open>\<open>this.weights = { ...this.weights, ...weights }\<close>. There is no check and no
  \<open>throw\<close>: the method returns on every argument.\<close>

definition updateWeights :: "TrustEngine \<Rightarrow> (string \<rightharpoonup> real) \<Rightarrow> TrustEngine" where
  "updateWeights eng ws = eng\<lparr>weights := weights eng ++ ws\<rparr>"

definition calculateSourceVerificationFactor ::
    "TrustEngine \<Rightarrow> CredentialVerificationResult \<Rightarrow> VerificationFactor" where
  "calculateSourceVerificationFactor eng credentialResult =
     (let (score', details') =
        (case status credentialResult of
           Valid \<Rightarrow> (100, ''Source has valid credentials'')
         | Expired \<Rightarrow> (50, ''Source has expired credentials'')
         | Revoked \<Rightarrow> (10, ''Source credentials have been revoked'')
         | Invalid \<Rightarrow> (0, ''Source has invalid credentials'')
         | Unknown \<Rightarrow> (30, ''Source credentials could not be verified''))
      in \<lparr>name = ''Source Verification'',
          description = ''Verification of content source using decentralized credentials'',
          score = score',
          weight = weights eng ''sourceVerification'',
          details = Some details',
          icon = None\<rparr>)"

definition calculateTechnicalAnalysisScore ::
    "MediaAnalysisResult option \<Rightarrow> TextAnalysisResult option \<Rightarrow> real" where
  "calculateTechnicalAnalysisScore mediaAnalysis textAnalysis =
     (let mediaScore = (case mediaAnalysis of
                          None \<Rightarrow> 100
                        | Some m \<Rightarrow> 100 - manipulationProbability m * 100);
          textScore = (case textAnalysis of
                         None \<Rightarrow> 100
                       | Some t \<Rightarrow> 100 - misinformationProbability t * 100)
      in if mediaAnalysis \<noteq> None \<and> textAnalysis \<noteq> None
         then mediaScore * 0.6 + textScore * 0.4
         else if mediaAnalysis \<noteq> None then mediaScore
         else if textAnalysis \<noteq> None then textScore
         else 50)"

definition mediaDetails :: "js_env \<Rightarrow> MediaAnalysisResult option \<Rightarrow> string" where
  "mediaDetails env mediaAnalysis =
     (case mediaAnalysis of
        None \<Rightarrow> ''''
      | Some m \<Rightarrow>
          ''Media manipulation probability: '' @ toFixed1 env (manipulationProbability m * 100)
            @ ''%. ''
          @ (case manipulationType m of
               None \<Rightarrow> ''''
             | Some ty \<Rightarrow>
                 if ty \<noteq> NoManipulation
                 then ''Detected '' @ manipulationTypeText ty @ ''. ''
                 else ''''))"

definition textDetails :: "js_env \<Rightarrow> TextAnalysisResult option \<Rightarrow> string" where
  "textDetails env textAnalysis =
     (case textAnalysis of
        None \<Rightarrow> ''''
      | Some t \<Rightarrow>
          ''Text misinformation probability: ''
            @ toFixed1 env (misinformationProbability t * 100) @ ''%. '')"

definition calculateTechnicalAnalysisFactor ::
    "js_env \<Rightarrow> TrustEngine \<Rightarrow> MediaAnalysisResult option \<Rightarrow> TextAnalysisResult option
      \<Rightarrow> VerificationFactor" where
  "calculateTechnicalAnalysisFactor env eng mediaAnalysis textAnalysis =
     (let details' = trim (mediaDetails env mediaAnalysis @ textDetails env textAnalysis)
      in \<lparr>name = ''Technical Analysis'',
          description = ''AI-powered analysis of media and text content'',
          score = calculateTechnicalAnalysisScore mediaAnalysis textAnalysis,
          weight = weights eng ''technicalAnalysis'',
          details = (if details' = [] then None else Some details'),
          icon = None\<rparr>)"

definition calculateTemporalFreshnessFactor ::
    "js_env \<Rightarrow> TrustEngine \<Rightarrow> int option \<Rightarrow> VerificationFactor" where
  "calculateTemporalFreshnessFactor env eng issued =
     \<lparr>name = ''Temporal Freshness'',
      description = ''Recency of the credential issuance'',
      score = calculateTemporalScore env issued * 100,
      weight = weights eng ''temporalFreshness'',
      details =
        Some (case issued of
                Some t \<Rightarrow>
                  ''Credential issued ''
                    @ toString env
                        (Math_round (real_of_int (Date_now env - t) / (1000 * 86400)))
                    @ '' days ago''
              | None \<Rightarrow> ''No issuance date available''),
      icon = None\<rparr>"

text \<open>The score of \<open>calculateCrossValidationFactor\<close>: \<open>let score = 0; if (sourcesChecked > 0)
  score = (sourcesCorroborating / sourcesChecked) * 100\<close>. The result is \<open>None\<close> when the
  division is evaluated with the divisor zero.\<close>

definition crossValidationScore :: "CrossValidationResult \<Rightarrow> real option" where
  "crossValidationScore cv =
     (if sourcesChecked cv > 0
      then map_option (\<lambda>q. q * 100) (js_divide (sourcesCorroborating cv) (sourcesChecked cv))
      else Some 0)"

definition calculateCrossValidationFactor ::
    "js_env \<Rightarrow> TrustEngine \<Rightarrow> CrossValidationResult \<Rightarrow> VerificationFactor" where
  "calculateCrossValidationFactor env eng cv =
     \<lparr>name = ''Cross Validation'',
      description = ''Verification against other trusted sources'',
      score = the (crossValidationScore cv),
      weight = weights eng ''crossValidation'',
      details =
        Some (if sourcesChecked cv > 0
              then toString env (sourcesCorroborating cv) @ '' out of ''
                     @ toString env (sourcesChecked cv)
                     @ '' sources corroborate this content''
              else ''No cross-validation sources available''),
      icon = None\<rparr>"

definition calculateCommunityRatingFactor ::
    "js_env \<Rightarrow> TrustEngine \<Rightarrow> real \<Rightarrow> VerificationFactor" where
  "calculateCommunityRatingFactor env eng rating =
     \<lparr>name = ''Community Rating'',
      description = ''Rating provided by the community'',
      score = rating,
      weight = weights eng ''communityRating'',
      details = Some (''Community rating: '' @ toFixed1 env rating @ ''/100''),
      icon = None\<rparr>"

text \<open>The factor list of \<open>calculateScore\<close>, in the order of its \<open>push\<close> calls.\<close>

definition scoreFactors ::
    "js_env \<Rightarrow> TrustEngine \<Rightarrow> CredentialVerificationResult \<Rightarrow> MediaAnalysisResult option
      \<Rightarrow> TextAnalysisResult option \<Rightarrow> CrossValidationResult option \<Rightarrow> real option
      \<Rightarrow> VerificationFactor list" where
  "scoreFactors env eng credentialResult mediaAnalysis textAnalysis cv rating =
     [calculateSourceVerificationFactor eng credentialResult]
     @ (if mediaAnalysis \<noteq> None \<or> textAnalysis \<noteq> None
        then [calculateTechnicalAnalysisFactor env eng mediaAnalysis textAnalysis] else [])
     @ [calculateTemporalFreshnessFactor env eng (issuanceDate credentialResult)]
     @ (case cv of None \<Rightarrow> [] | Some c \<Rightarrow> [calculateCrossValidationFactor env eng c])
     @ (case rating of None \<Rightarrow> [] | Some r \<Rightarrow> [calculateCommunityRatingFactor env eng r])"

text \<open>\<open>calculateScore\<close>. The parameter \<open>contentUrl\<close> is declared with the empty string as
  its default, which a call without it takes; \<open>new Date()\<close> reads the clock.\<close>

definition calculateScore ::
    "js_env \<Rightarrow> TrustEngine \<Rightarrow> CredentialVerificationResult \<Rightarrow> MediaAnalysisResult option
      \<Rightarrow> TextAnalysisResult option \<Rightarrow> CrossValidationResult option \<Rightarrow> real option
      \<Rightarrow> string option \<Rightarrow> VerificationResult" where
  "calculateScore env eng credentialResult mediaAnalysis textAnalysis cv rating url =
     (let fs = scoreFactors env eng credentialResult mediaAnalysis textAnalysis cv rating
      in \<lparr>trustScore = clampedAverage (accumulate fs (Some 0, Some 0)),
          sourceVerified = (status credentialResult = Valid),
          technicalAnalysisScore = calculateTechnicalAnalysisScore mediaAnalysis textAnalysis,
          communityRating = rating,
          credentialIssuanceDate = issuanceDate credentialResult,
          crossValidation = cv,
          factors = fs,
          contentUrl = (case url of None \<Rightarrow> [] | Some u \<Rightarrow> u),
          verificationTimestamp = Date_now env,
          aiContentAnalysis = None\<rparr>)"

subsection \<open>The late merge of the AI-content result (content script)\<close>

text \<open>\<open>Array.prototype.findIndex\<close>: the first index whose element satisfies the predicate,
  \<open>-1\<close> when there is none.\<close>

fun findIndex :: "('a \<Rightarrow> bool) \<Rightarrow> 'a list \<Rightarrow> int" where
  "findIndex P [] = - 1"
| "findIndex P (x # xs) =
     (if P x then 0 else (let i = findIndex P xs in if i < 0 then - 1 else i + 1))"

definition isAiFactor :: "VerificationFactor \<Rightarrow> bool" where
  "isAiFactor factor = (name factor = ''AI Content Analysis'')"

text \<open>The mutation of \<open>analyzeAiContent\<close>: the factor found is overwritten through a spread
  (its name and icon stay), a missing one is pushed; the whole analysis is stored.\<close>

definition mergeAiFactor :: "AiContentAnalysisResult \<Rightarrow> VerificationResult \<Rightarrow> VerificationResult" where
  "mergeAiFactor ai r =
     (let aiFactorIndex = findIndex isAiFactor (factors r);
          fs = (if aiFactorIndex \<ge> 0
                then (factors r)[nat aiFactorIndex :=
                       (factors r ! nat aiFactorIndex)
                         \<lparr>score := aiScore ai,
                          description := ''Detection of AI-generated content'',
                          details := aiDetails ai,
                          weight := Some 0.25\<rparr>]
                else factors r @
                       [\<lparr>name = ''AI Content Analysis'',
                         description = ''Detection of AI-generated content'',
                         score = aiScore ai,
                         weight = Some 0.25,
                         details = aiDetails ai,
                         icon = None\<rparr>])
      in r\<lparr>factors := fs, aiContentAnalysis := Some ai\<rparr>)"

text \<open>The \<open>factorScore\<close> of \<open>recalculateTrustScore\<close>: the AI score is inverted.\<close>

definition factorScore :: "VerificationFactor \<Rightarrow> real" where
  "factorScore factor = (if isAiFactor factor then 100 - score factor else score factor)"

primrec accumulateInverted ::
    "VerificationFactor list \<Rightarrow> jsnum \<times> jsnum \<Rightarrow> jsnum \<times> jsnum" where
  "accumulateInverted [] totals = totals"
| "accumulateInverted (f # fs) totals =
     accumulateInverted fs
       (js_add (fst totals) (js_mul (Some (factorScore f)) (weight f)),
        js_add (snd totals) (weight f))"

text \<open>\<open>if (totalWeight > 0) result.trustScore = Math.round(totalScore / totalWeight)\<close>; there
  is no \<open>else\<close>. The argument of \<open>Math.round\<close> is a double: the exact quotient of the two
  exact sums plus the rounding error \<open>roundoff\<close> that the additions, the multiplications and
  the division of this call have left in it.\<close>

definition recalculateResult :: "real \<Rightarrow> VerificationResult \<Rightarrow> VerificationResult" where
  "recalculateResult roundoff r =
     (let totals = accumulateInverted (factors r) (Some 0, Some 0)
      in if js_positive (snd totals)
         then r\<lparr>trustScore :=
                  (case fst totals of
                     None \<Rightarrow> None
                   | Some s \<Rightarrow> Some (Math_round (s / the (snd totals) + roundoff)))\<rparr>
         else r)"

text \<open>The content script keeps its results in \<open>verificationResults\<close>, keyed by URL.\<close>

type_synonym results = "string \<rightharpoonup> VerificationResult"

definition recalculateTrustScore :: "real \<Rightarrow> string \<Rightarrow> results \<Rightarrow> results" where
  "recalculateTrustScore roundoff url vr =
     (case vr url of None \<Rightarrow> vr | Some r \<Rightarrow> vr(url \<mapsto> recalculateResult roundoff r))"

text \<open>\<open>analyzeAiContent\<close> from the point where the detection service has answered with
  \<open>ai\<close>; a URL without a stored result is left alone.\<close>

definition analyzeAiContent ::
    "real \<Rightarrow> AiContentAnalysisResult \<Rightarrow> string \<Rightarrow> results \<Rightarrow> results" where
  "analyzeAiContent roundoff ai url vr =
     (case vr url of
        None \<Rightarrow> vr
      | Some r \<Rightarrow> recalculateTrustScore roundoff url (vr(url \<mapsto> mergeAiFactor ai r)))"


subsection \<open>The specification's weighted average\<close>

text \<open>The aggregation rule in the specification's words: the sum of \<open>score \<cdot> weight\<close> over
  the sum of the weights, clamped to \<open>[0, 100]\<close>, and \<open>0\<close> when the factors have no positive
  total weight. A list with an undefined weight has no total weight.\<close>

definition weightsDefined :: "VerificationFactor list \<Rightarrow> bool" where
  "weightsDefined fs = (filter (\<lambda>f. weight f = None) fs = [])"

definition weightOf :: "VerificationFactor \<Rightarrow> real" where
  "weightOf f = (case weight f of None \<Rightarrow> 0 | Some w \<Rightarrow> w)"

definition totalWeight :: "VerificationFactor list \<Rightarrow> real" where
  "totalWeight fs = sum_list (map weightOf fs)"

definition weightedSum :: "(VerificationFactor \<Rightarrow> real) \<Rightarrow> VerificationFactor list \<Rightarrow> real" where
  "weightedSum sc fs = sum_list (map (\<lambda>f. sc f * weightOf f) fs)"

definition hasPositiveWeight :: "VerificationFactor list \<Rightarrow> bool" where
  "hasPositiveWeight fs = (weightsDefined fs \<and> 0 < totalWeight fs)"

definition specTrustScore :: "VerificationFactor list \<Rightarrow> real" where
  "specTrustScore fs =
     (if hasPositiveWeight fs
      then min 100 (max 0 (weightedSum score fs / totalWeight fs))
      else 0)"


subsection \<open>Sample inputs\<close>

definition sampleEnv :: js_env where
  "sampleEnv = \<lparr>Date_now = 2592000000, toString = (\<lambda>x. ''n''), toFixed1 = (\<lambda>x. ''n.d'')\<rparr>"

definition sampleCredential :: CredentialVerificationResult where
  "sampleCredential =
     \<lparr>status = Valid, issuer = None, issuanceDate = None, revocationStatus = None\<rparr>"

definition sampleMedia :: MediaAnalysisResult where
  "sampleMedia =
     \<lparr>manipulationProbability = 0.2, manipulationType = Some Deepfake, confidence = 0.9\<rparr>"

definition sampleText :: TextAnalysisResult where
  "sampleText = \<lparr>misinformationProbability = 0.4, sentiment = None, language = None\<rparr>"

definition sampleAi :: AiContentAnalysisResult where
  "sampleAi =
     \<lparr>isAiGenerated = True, aiScore = 100, detectionConfidence = 0.9, aiDetails = None\<rparr>"

definition sampleAi2 :: AiContentAnalysisResult where
  "sampleAi2 =
     \<lparr>isAiGenerated = False, aiScore = 20, detectionConfidence = 0.8,
      aiDetails = Some ''mostly human''\<rparr>"

definition sampleAi78 :: AiContentAnalysisResult where
  "sampleAi78 =
     \<lparr>isAiGenerated = True, aiScore = 78, detectionConfidence = 0.7, aiDetails = None\<rparr>"

definition sampleRevoked :: CredentialVerificationResult where
  "sampleRevoked =
     \<lparr>status = Revoked, issuer = None, issuanceDate = None, revocationStatus = Some True\<rparr>"

definition sampleNegativeEngine :: TrustEngine where
  "sampleNegativeEngine =
     newTrustEngine (Some [''sourceVerification'' \<mapsto> - 1, ''temporalFreshness'' \<mapsto> 0])"

definition sampleResult :: VerificationResult where
  "sampleResult =
     calculateScore sampleEnv (newTrustEngine None) sampleCredential None None None None (Some ''u'')"

section \<open>Properties\<close>

subsection \<open>The two accumulation loops\<close>


lemma accumulateInverted_NaN: "accumulateInverted fs (None, None) = (None, None)"
  by (induction fs) (simp_all add: js_add_def)

lemma weightsDefined_Cons:
  "weightsDefined (f # fs) = (weight f \<noteq> None \<and> weightsDefined fs)"
  by (simp add: weightsDefined_def)


lemma accumulateInverted_sums:
  "accumulateInverted fs (Some a, Some b) =
     (if weightsDefined fs then (Some (a + weightedSum factorScore fs), Some (b + totalWeight fs))
      else (None, None))"
proof (induction fs arbitrary: a b)
  case Nil
  show ?case by (simp add: weightsDefined_def weightedSum_def totalWeight_def)
next
  case (Cons f fs)
  show ?case
  proof (cases "weight f")
    case None
    then show ?thesis
      by (simp add: js_add_def js_mul_def accumulateInverted_NaN weightsDefined_Cons)
  next
    case (Some w)
    then show ?thesis
      by (simp add: Cons.IH js_add_def js_mul_def weightsDefined_Cons weightedSum_def
          totalWeight_def weightOf_def add.assoc)
  qed
qed



lemma recalculateResult_factors: "factors (recalculateResult e r) = factors r"
  by (simp add: recalculateResult_def Let_def)

lemma recalculateResult_trustScore:
  "trustScore (recalculateResult e r) =
     (if hasPositiveWeight (factors r)
      then Some (Math_round (weightedSum factorScore (factors r) / totalWeight (factors r) + e))
      else trustScore r)"
  by (simp add: recalculateResult_def Let_def accumulateInverted_sums hasPositiveWeight_def
      js_positive_def)

lemma analyzeAiContent_stored:
  "vr u = Some res \<Longrightarrow> analyzeAiContent e ai u vr u = Some (recalculateResult e (mergeAiFactor ai res))"
  by (simp add: analyzeAiContent_def recalculateTrustScore_def)

lemma analyzeAiContent_missing:
  "vr u = None \<Longrightarrow> analyzeAiContent e ai u vr = vr"
  by (simp add: analyzeAiContent_def)

lemma analyzeAiContent_other:
  "u' \<noteq> u \<Longrightarrow> analyzeAiContent e ai u vr u' = vr u'"
  by (simp add: analyzeAiContent_def recalculateTrustScore_def split: option.splits)

subsection \<open>\<open>findIndex\<close>\<close>

lemma findIndex_lower: "- 1 \<le> findIndex P xs"
  by (induction xs) (simp_all add: Let_def)

lemma findIndex_upper: "findIndex P xs < int (length xs)"
  by (induction xs) (simp_all add: Let_def)

lemma findIndex_found_iff: "0 \<le> findIndex P xs \<longleftrightarrow> (\<exists>x \<in> set xs. P x)"
  by (induction xs) (auto simp add: Let_def)

lemma findIndex_holds: "0 \<le> findIndex P xs \<Longrightarrow> P (xs ! nat (findIndex P xs))"
proof (induction xs)
  case Nil
  then show ?case by simp
next
  case (Cons x xs)
  show ?case
  proof (cases "P x")
    case True
    then show ?thesis by simp
  next
    case False
    with Cons.prems have ge: "0 \<le> findIndex P xs"
      by (simp add: Let_def split: if_splits)
    then have "nat (findIndex P xs + 1) = Suc (nat (findIndex P xs))" by simp
    with False ge Cons.IH show ?thesis by (simp add: Let_def)
  qed
qed

lemma findIndex_update:
  "0 \<le> findIndex P xs \<Longrightarrow> P y \<Longrightarrow> findIndex P (xs[nat (findIndex P xs) := y]) = findIndex P xs"
proof (induction xs)
  case Nil
  then show ?case by simp
next
  case (Cons x xs)
  show ?case
  proof (cases "P x")
    case True
    with Cons.prems show ?thesis by simp
  next
    case False
    with Cons.prems have ge: "0 \<le> findIndex P xs"
      by (simp add: Let_def split: if_splits)
    then have "nat (findIndex P xs + 1) = Suc (nat (findIndex P xs))" by simp
    with False ge Cons.IH Cons.prems show ?thesis by (simp add: Let_def)
  qed
qed

lemma findIndex_append_new:
  "findIndex P xs < 0 \<Longrightarrow> P y \<Longrightarrow> findIndex P (xs @ [y]) = int (length xs)"
proof (induction xs)
  case Nil
  then show ?case by simp
next
  case (Cons x xs)
  then show ?case by (simp add: Let_def split: if_splits)
qed

subsection \<open>The engine\<close>

lemmas factor_defs = calculateSourceVerificationFactor_def calculateTechnicalAnalysisFactor_def
  calculateTemporalFreshnessFactor_def calculateCrossValidationFactor_def
  calculateCommunityRatingFactor_def

lemma factors_calculateScore:
  "factors (calculateScore env eng c m t cv r url) = scoreFactors env eng c m t cv r"
  by (simp add: calculateScore_def Let_def)

lemma factor_names:
  "name (calculateSourceVerificationFactor eng c) = ''Source Verification''"
  "name (calculateTechnicalAnalysisFactor env eng m t) = ''Technical Analysis''"
  "name (calculateTemporalFreshnessFactor env eng d) = ''Temporal Freshness''"
  "name (calculateCrossValidationFactor env eng x) = ''Cross Validation''"
  "name (calculateCommunityRatingFactor env eng y) = ''Community Rating''"
  by (simp_all add: factor_defs Let_def split: prod.splits)

text \<open>
  Claim C5. The score of the Source Verification factor is a fixed function of the
  credential status: valid gives 100, invalid 0, revoked 10, expired 50, unknown 30; and the
  factor list of every \<open>calculateScore\<close> call holds exactly one factor of that name, the one
  built from the credential.
\<close>

theorem source_verification_table:
  "score (calculateSourceVerificationFactor eng c) =
     (case status c of
        Valid \<Rightarrow> 100 | Invalid \<Rightarrow> 0 | Revoked \<Rightarrow> 10 | Expired \<Rightarrow> 50 | Unknown \<Rightarrow> 30)
   \<and> filter (\<lambda>f. name f = ''Source Verification'')
         (factors (calculateScore env eng c m t cv r url))
       = [calculateSourceVerificationFactor eng c]"
proof
  show "score (calculateSourceVerificationFactor eng c) =
     (case status c of
        Valid \<Rightarrow> 100 | Invalid \<Rightarrow> 0 | Revoked \<Rightarrow> 10 | Expired \<Rightarrow> 50 | Unknown \<Rightarrow> 30)"
    by (cases "status c") (simp_all add: calculateSourceVerificationFactor_def)
  show "filter (\<lambda>f. name f = ''Source Verification'')
         (factors (calculateScore env eng c m t cv r url))
       = [calculateSourceVerificationFactor eng c]"
    by (simp add: factors_calculateScore scoreFactors_def factor_names split: option.splits)
qed

text \<open>
  Claim C6. The technical-analysis score is \<open>0.6 \<cdot> (100 - 100 \<cdot> manipulationProbability) +
  0.4 \<cdot> (100 - 100 \<cdot> misinformationProbability)\<close> when both analyses are present, the single
  inverted probability when one is, and 50 when none is. The Technical Analysis factor carries
  that score and is in the factor list exactly when at least one analysis is present, while
  the field \<open>technicalAnalysisScore\<close> of the result is set in every case (so it is 50 when
  neither is present).
\<close>

theorem technical_analysis_blend:
  "calculateTechnicalAnalysisScore (Some media) (Some tx) =
     0.6 * (100 - manipulationProbability media * 100)
       + 0.4 * (100 - misinformationProbability tx * 100)
   \<and> calculateTechnicalAnalysisScore (Some media) None = 100 - manipulationProbability media * 100
   \<and> calculateTechnicalAnalysisScore None (Some tx) = 100 - misinformationProbability tx * 100
   \<and> calculateTechnicalAnalysisScore None None = 50
   \<and> score (calculateTechnicalAnalysisFactor env eng m t) = calculateTechnicalAnalysisScore m t
   \<and> filter (\<lambda>f. name f = ''Technical Analysis'')
         (factors (calculateScore env eng c m t cv r url))
       = (if m \<noteq> None \<or> t \<noteq> None then [calculateTechnicalAnalysisFactor env eng m t] else [])
   \<and> technicalAnalysisScore (calculateScore env eng c m t cv r url)
       = calculateTechnicalAnalysisScore m t"
proof (intro conjI)
  show "filter (\<lambda>f. name f = ''Technical Analysis'')
         (factors (calculateScore env eng c m t cv r url))
       = (if m \<noteq> None \<or> t \<noteq> None then [calculateTechnicalAnalysisFactor env eng m t] else [])"
    by (simp add: factors_calculateScore scoreFactors_def factor_names split: option.splits)
  show "technicalAnalysisScore (calculateScore env eng c m t cv r url)
       = calculateTechnicalAnalysisScore m t"
    by (simp add: calculateScore_def Let_def)
  show "score (calculateTechnicalAnalysisFactor env eng m t) = calculateTechnicalAnalysisScore m t"
    by (simp add: calculateTechnicalAnalysisFactor_def Let_def)
qed (simp_all add: calculateTechnicalAnalysisScore_def)

theorem technical_analysis_blend_witness:
  "calculateTechnicalAnalysisScore (Some sampleMedia) (Some sampleText) = 72
   \<and> map score (filter (\<lambda>f. name f = ''Technical Analysis'')
         (factors (calculateScore sampleEnv (newTrustEngine None) sampleCredential
            (Some sampleMedia) (Some sampleText) None None (Some ''u'')))) = [72]
   \<and> technicalAnalysisScore (calculateScore sampleEnv (newTrustEngine None) sampleCredential
         (Some sampleMedia) (Some sampleText) None None (Some ''u'')) = 72"
  using technical_analysis_blend [where media = sampleMedia and tx = sampleText
      and env = sampleEnv and eng = "newTrustEngine None" and m = "Some sampleMedia"
      and t = "Some sampleText" and c = sampleCredential and cv = None and r = None
      and url = "Some ''u''"]
  by (simp add: sampleMedia_def sampleText_def)

text \<open>
  Claim C7. Every \<open>calculateScore\<close> call emits one Temporal Freshness factor; its score is
  \<open>100 \<cdot> exp (- ageInDays / 30)\<close>, the age counted from the issuance date to \<open>Date.now()\<close> in
  days of 86400000 ms, when the credential has an issuance date, and 0 when it has none.
\<close>

theorem temporal_freshness_decay:
  "filter (\<lambda>f. name f = ''Temporal Freshness'')
         (factors (calculateScore env eng c m t cv r url))
       = [calculateTemporalFreshnessFactor env eng (issuanceDate c)]
   \<and> score (calculateTemporalFreshnessFactor env eng (Some issued))
       = 100 * exp (- (real_of_int (Date_now env - issued) / (1000 * 86400)) / 30)
   \<and> score (calculateTemporalFreshnessFactor env eng None) = 0"
proof (intro conjI)
  show "filter (\<lambda>f. name f = ''Temporal Freshness'')
         (factors (calculateScore env eng c m t cv r url))
       = [calculateTemporalFreshnessFactor env eng (issuanceDate c)]"
    by (simp add: factors_calculateScore scoreFactors_def factor_names split: option.splits)
qed (simp_all add: calculateTemporalFreshnessFactor_def calculateTemporalScore_def)

text \<open>
  Claim C8. A Cross Validation factor is in the factor list only when a cross-validation
  input is present; its score is \<open>sourcesCorroborating / sourcesChecked \<cdot> 100\<close> when
  \<open>sourcesChecked > 0\<close> and 0 otherwise, in particular when \<open>sourcesChecked = 0\<close>. The
  computation of the score never divides by zero: on every input it yields a number, where
  a division by zero would have yielded none.
\<close>

theorem cross_validation_guarded:
  "filter (\<lambda>f. name f = ''Cross Validation'')
         (factors (calculateScore env eng c m t cv r url))
       = (case cv of None \<Rightarrow> [] | Some x \<Rightarrow> [calculateCrossValidationFactor env eng x])
   \<and> crossValidationScore x
       = Some (if 0 < sourcesChecked x
               then sourcesCorroborating x / sourcesChecked x * 100 else 0)
   \<and> score (calculateCrossValidationFactor env eng x)
       = (if 0 < sourcesChecked x
          then sourcesCorroborating x / sourcesChecked x * 100 else 0)
   \<and> crossValidationScore (x\<lparr>sourcesChecked := 0\<rparr>) = Some 0
   \<and> score (calculateCrossValidationFactor env eng (x\<lparr>sourcesChecked := 0\<rparr>)) = 0"
proof (intro conjI)
  show "filter (\<lambda>f. name f = ''Cross Validation'')
         (factors (calculateScore env eng c m t cv r url))
       = (case cv of None \<Rightarrow> [] | Some x \<Rightarrow> [calculateCrossValidationFactor env eng x])"
    by (simp add: factors_calculateScore scoreFactors_def factor_names split: option.splits)
  show total: "crossValidationScore x
       = Some (if 0 < sourcesChecked x
               then sourcesCorroborating x / sourcesChecked x * 100 else 0)"
    by (simp add: crossValidationScore_def js_divide_def)
  then show "score (calculateCrossValidationFactor env eng x)
       = (if 0 < sourcesChecked x
          then sourcesCorroborating x / sourcesChecked x * 100 else 0)"
    by (simp add: calculateCrossValidationFactor_def)
  show zero: "crossValidationScore (x\<lparr>sourcesChecked := 0\<rparr>) = Some 0"
    by (simp add: crossValidationScore_def)
  then show "score (calculateCrossValidationFactor env eng (x\<lparr>sourcesChecked := 0\<rparr>)) = 0"
    by (simp add: calculateCrossValidationFactor_def)
qed

text \<open>
  Claim C9. In the result of \<open>calculateScore\<close>, \<open>sourceVerified\<close> is true if and only if the
  credential status is valid; expired, revoked, invalid and unknown all give false.
\<close>

theorem source_verified_iff_valid:
  "sourceVerified (calculateScore env eng c m t cv r url) = (status c = Valid)
   \<and> \<not> sourceVerified (calculateScore env eng (c\<lparr>status := Expired\<rparr>) m t cv r url)
   \<and> \<not> sourceVerified (calculateScore env eng (c\<lparr>status := Revoked\<rparr>) m t cv r url)
   \<and> \<not> sourceVerified (calculateScore env eng (c\<lparr>status := Invalid\<rparr>) m t cv r url)
   \<and> \<not> sourceVerified (calculateScore env eng (c\<lparr>status := Unknown\<rparr>) m t cv r url)"
  by (simp add: calculateScore_def Let_def)

text \<open>
  Claim C10. The constructor takes the built-in default weights only when no weights
  argument is given; a given object replaces them wholesale, so a partial object leaves the
  keys it does not list undefined (and with them the weight of the factor that reads such a
  key). \<open>updateWeights\<close> merges key by key: a key of the update takes the new value, every
  other key keeps its value.
\<close>

theorem constructor_replaces_update_merges:
  "weights (newTrustEngine None) = builtinWeights
   \<and> weights (newTrustEngine (Some ws)) = ws
   \<and> weights (newTrustEngine (Some [''sourceVerification'' \<mapsto> 0.5])) ''technicalAnalysis'' = None
   \<and> weight (calculateTechnicalAnalysisFactor env
         (newTrustEngine (Some [''sourceVerification'' \<mapsto> 0.5])) m t) = None
   \<and> weights (updateWeights eng ws) k = (case ws k of Some v \<Rightarrow> Some v | None \<Rightarrow> weights eng k)
   \<and> weights (updateWeights (newTrustEngine None) [''sourceVerification'' \<mapsto> 0.5])
        ''technicalAnalysis'' = Some 0.25"
  by (simp add: newTrustEngine_def updateWeights_def builtinWeights_def
      calculateTechnicalAnalysisFactor_def Let_def map_add_def split: option.splits)

text \<open>
  Claim C3 says that an update with a negative weight is rejected and the prior
  configuration stays active. On the code it is not: after updating the default engine with
  \<open>sourceVerification = -1\<close>, the weight 0.35 has become \<open>-1\<close>.
\<close>

theorem negative_weight_rejected_counterexample:
  "weights (newTrustEngine None) ''sourceVerification'' = Some 0.35
   \<and> weights (updateWeights (newTrustEngine None) [''sourceVerification'' \<mapsto> - 1])
        ''sourceVerification'' = Some (- 1)"
  by (simp add: newTrustEngine_def updateWeights_def builtinWeights_def)

text \<open>
  Claim C3, amended. \<open>updateWeights\<close> does not validate and raises no error: for every update,
  also one with a negative weight, every key of the update takes the value of the update and
  every other key keeps its value.
\<close>

theorem negative_weight_accepted:
  "weights (updateWeights eng ws) k = (case ws k of Some v \<Rightarrow> Some v | None \<Rightarrow> weights eng k)
   \<and> defaultWeights (updateWeights eng ws) = defaultWeights eng
   \<and> weights (updateWeights (newTrustEngine None)
         [''sourceVerification'' \<mapsto> - 1, ''technicalAnalysis'' \<mapsto> 0.5]) ''sourceVerification''
       = Some (- 1)
   \<and> weights (updateWeights (newTrustEngine None)
         [''sourceVerification'' \<mapsto> - 1, ''technicalAnalysis'' \<mapsto> 0.5]) ''technicalAnalysis''
       = Some 0.5
   \<and> weights (updateWeights (newTrustEngine None)
         [''sourceVerification'' \<mapsto> - 1, ''technicalAnalysis'' \<mapsto> 0.5]) ''crossValidation''
       = Some 0.1"
proof (intro conjI)
  show "weights (updateWeights eng ws) k
      = (case ws k of Some v \<Rightarrow> Some v | None \<Rightarrow> weights eng k)"
    by (simp add: updateWeights_def map_add_def)
  show "defaultWeights (updateWeights eng ws) = defaultWeights eng"
    by (simp add: updateWeights_def)
qed (simp_all add: updateWeights_def newTrustEngine_def builtinWeights_def)

subsection \<open>The merge\<close>

lemma mergeAiFactor_factors:
  "factors (mergeAiFactor ai r) =
     (if 0 \<le> findIndex isAiFactor (factors r)
      then (factors r)[nat (findIndex isAiFactor (factors r)) :=
             (factors r ! nat (findIndex isAiFactor (factors r)))
               \<lparr>score := aiScore ai,
                description := ''Detection of AI-generated content'',
                details := aiDetails ai,
                weight := Some 0.25\<rparr>]
      else factors r @
             [\<lparr>name = ''AI Content Analysis'',
               description = ''Detection of AI-generated content'',
               score = aiScore ai,
               weight = Some 0.25,
               details = aiDetails ai,
               icon = None\<rparr>])"
  by (simp add: mergeAiFactor_def Let_def)

lemma mergeAiFactor_trustScore: "trustScore (mergeAiFactor ai r) = trustScore r"
  by (simp add: mergeAiFactor_def Let_def)

lemma mergeAiFactor_index:
  "findIndex isAiFactor (factors (mergeAiFactor ai r)) =
     (if 0 \<le> findIndex isAiFactor (factors r) then findIndex isAiFactor (factors r)
      else int (length (factors r)))"
proof (cases "0 \<le> findIndex isAiFactor (factors r)")
  case True
  then have "isAiFactor (factors r ! nat (findIndex isAiFactor (factors r)))"
    by (rule findIndex_holds)
  then have "isAiFactor ((factors r ! nat (findIndex isAiFactor (factors r)))
               \<lparr>score := aiScore ai,
                description := ''Detection of AI-generated content'',
                details := aiDetails ai,
                weight := Some 0.25\<rparr>)"
    by (simp add: isAiFactor_def)
  with True show ?thesis
    by (simp add: mergeAiFactor_factors findIndex_update)
next
  case False
  then show ?thesis
    by (simp add: mergeAiFactor_factors findIndex_append_new isAiFactor_def)
qed

lemma mergeAiFactor_found: "0 \<le> findIndex isAiFactor (factors (mergeAiFactor ai r))"
  by (simp add: mergeAiFactor_index)

lemma mergeAiFactor_length:
  "length (factors (mergeAiFactor ai r)) =
     (if 0 \<le> findIndex isAiFactor (factors r) then length (factors r)
      else Suc (length (factors r)))"
  by (simp add: mergeAiFactor_factors)

lemma mergeAiFactor_stored_values:
  "score (factors (mergeAiFactor ai r) ! nat (findIndex isAiFactor (factors (mergeAiFactor ai r))))
     = aiScore ai
   \<and> weight (factors (mergeAiFactor ai r) ! nat (findIndex isAiFactor (factors (mergeAiFactor ai r))))
     = Some 0.25"
proof (cases "0 \<le> findIndex isAiFactor (factors r)")
  case True
  have "nat (findIndex isAiFactor (factors r)) < length (factors r)"
    using True findIndex_upper [of isAiFactor "factors r"] by simp
  with True show ?thesis
    by (simp add: mergeAiFactor_index) (simp add: mergeAiFactor_factors)
next
  case False
  then show ?thesis
    by (simp add: mergeAiFactor_index) (simp add: mergeAiFactor_factors)
qed

lemma mergeAiFactor_stored:
  fixes ai r
  defines "fs \<equiv> factors (mergeAiFactor ai r)"
  defines "i \<equiv> nat (findIndex isAiFactor fs)"
  shows "i < length fs" and "name (fs ! i) = ''AI Content Analysis''"
    and "score (fs ! i) = aiScore ai" and "weight (fs ! i) = Some 0.25"
proof -
  have found: "0 \<le> findIndex isAiFactor fs"
    unfolding fs_def by (rule mergeAiFactor_found)
  show "i < length fs"
    using found findIndex_upper [of isAiFactor fs] by (simp add: i_def)
  show "name (fs ! i) = ''AI Content Analysis''"
    using findIndex_holds [OF found] by (simp add: i_def isAiFactor_def)
  show "score (fs ! i) = aiScore ai" and "weight (fs ! i) = Some 0.25"
    using mergeAiFactor_stored_values [of ai r] by (simp_all add: i_def fs_def)
qed

lemma weightedSum_append:
  "weightedSum sc (xs @ ys) = weightedSum sc xs + weightedSum sc ys"
  by (simp add: weightedSum_def)

lemma weightedSum_split:
  "i < length fs \<Longrightarrow>
     weightedSum sc fs =
       weightedSum sc (take i fs) + sc (fs ! i) * weightOf (fs ! i)
         + weightedSum sc (drop (Suc i) fs)"
proof -
  assume "i < length fs"
  then have "fs = take i fs @ [fs ! i] @ drop (Suc i) fs"
    by (simp add: id_take_nth_drop)
  then have "weightedSum sc fs = weightedSum sc (take i fs @ [fs ! i] @ drop (Suc i) fs)"
    by simp
  also have "\<dots> = weightedSum sc (take i fs) + sc (fs ! i) * weightOf (fs ! i)
         + weightedSum sc (drop (Suc i) fs)"
    by (simp only: weightedSum_append) (simp add: weightedSum_def)
  finally show ?thesis .
qed

lemma analyzeAiContent_result:
  "analyzeAiContent e ai u vr u = Some res' \<Longrightarrow>
     \<exists>res. vr u = Some res \<and> res' = recalculateResult e (mergeAiFactor ai res)"
  by (cases "vr u") (simp_all add: analyzeAiContent_def recalculateTrustScore_def)

subsection \<open>The held results\<close>
















lemmas sample_defs = sampleResult_def sampleEnv_def sampleCredential_def sampleAi_def
  sampleAi2_def sampleAi78_def sampleRevoked_def sampleNegativeEngine_def newTrustEngine_def
  builtinWeights_def

lemmas eval_defs = calculateScore_def scoreFactors_def factor_defs calculateTemporalScore_def
  clampedAverage_def js_add_def js_mul_def js_positive_def Let_def
  analyzeAiContent_def recalculateTrustScore_def recalculateResult_def mergeAiFactor_def
  isAiFactor_def factorScore_def Math_round_def specTrustScore_def hasPositiveWeight_def
  weightsDefined_def totalWeight_def weightedSum_def weightOf_def

subsection \<open>The trust score and the merge\<close>




text \<open>
  Claim C2. After the late AI-content result with raw score \<open>S\<close> has been merged into a
  stored result, the AI Content Analysis factor of that result has score \<open>S\<close> and weight
  0.25, whatever the weight configuration is (the merge does not read it), while the
  numerator of the recomputed trust score is the sum over the other factors plus
  \<open>(100 - S) \<cdot> 0.25\<close>.
\<close>

theorem ai_factor_raw_score_inverted_contribution:
  "analyzeAiContent e ai u vr u = Some res' \<longrightarrow>
     0 \<le> findIndex isAiFactor (factors res')
     \<and> nat (findIndex isAiFactor (factors res')) < length (factors res')
     \<and> name (factors res' ! nat (findIndex isAiFactor (factors res'))) = ''AI Content Analysis''
     \<and> score (factors res' ! nat (findIndex isAiFactor (factors res'))) = aiScore ai
     \<and> weight (factors res' ! nat (findIndex isAiFactor (factors res'))) = Some 0.25
     \<and> weightedSum factorScore (factors res')
         = weightedSum factorScore (take (nat (findIndex isAiFactor (factors res'))) (factors res'))
           + (100 - aiScore ai) * 0.25
           + weightedSum factorScore
               (drop (Suc (nat (findIndex isAiFactor (factors res')))) (factors res'))
     \<and> fst (accumulateInverted (factors res') (Some 0, Some 0))
         = (if weightsDefined (factors res') then Some (weightedSum factorScore (factors res'))
            else None)
     \<and> (hasPositiveWeight (factors res') \<longrightarrow>
          trustScore res'
            = Some (Math_round (weightedSum factorScore (factors res')
                                  / totalWeight (factors res') + e)))"
proof
  assume a: "analyzeAiContent e ai u vr u = Some res'"
  then obtain res where res': "res' = recalculateResult e (mergeAiFactor ai res)"
    using analyzeAiContent_result by blast
  define fs where "fs = factors (mergeAiFactor ai res)"
  define i where "i = nat (findIndex isAiFactor fs)"
  have fs: "factors res' = fs"
    by (simp add: res' recalculateResult_factors fs_def)
  have found: "0 \<le> findIndex isAiFactor fs"
    unfolding fs_def by (rule mergeAiFactor_found)
  have len: "i < length fs" and nm: "name (fs ! i) = ''AI Content Analysis''"
    and sc: "score (fs ! i) = aiScore ai" and wt: "weight (fs ! i) = Some 0.25"
    unfolding i_def fs_def by (rule mergeAiFactor_stored)+
  have "factorScore (fs ! i) * weightOf (fs ! i) = (100 - aiScore ai) * 0.25"
    by (simp add: factorScore_def isAiFactor_def weightOf_def nm sc wt)
  with weightedSum_split [OF len, of factorScore]
  have split: "weightedSum factorScore fs
         = weightedSum factorScore (take i fs) + (100 - aiScore ai) * 0.25
           + weightedSum factorScore (drop (Suc i) fs)"
    by simp
  have num: "fst (accumulateInverted fs (Some 0, Some 0))
         = (if weightsDefined fs then Some (weightedSum factorScore fs) else None)"
    by (simp add: accumulateInverted_sums)
  have ts: "hasPositiveWeight fs \<longrightarrow>
          trustScore res' = Some (Math_round (weightedSum factorScore fs / totalWeight fs + e))"
    by (simp add: res' recalculateResult_trustScore fs_def)
  from found len nm sc wt split num ts
  show "0 \<le> findIndex isAiFactor (factors res')
     \<and> nat (findIndex isAiFactor (factors res')) < length (factors res')
     \<and> name (factors res' ! nat (findIndex isAiFactor (factors res'))) = ''AI Content Analysis''
     \<and> score (factors res' ! nat (findIndex isAiFactor (factors res'))) = aiScore ai
     \<and> weight (factors res' ! nat (findIndex isAiFactor (factors res'))) = Some 0.25
     \<and> weightedSum factorScore (factors res')
         = weightedSum factorScore (take (nat (findIndex isAiFactor (factors res'))) (factors res'))
           + (100 - aiScore ai) * 0.25
           + weightedSum factorScore
               (drop (Suc (nat (findIndex isAiFactor (factors res')))) (factors res'))
     \<and> fst (accumulateInverted (factors res') (Some 0, Some 0))
         = (if weightsDefined (factors res') then Some (weightedSum factorScore (factors res'))
            else None)
     \<and> (hasPositiveWeight (factors res') \<longrightarrow>
          trustScore res'
            = Some (Math_round (weightedSum factorScore (factors res')
                                  / totalWeight (factors res') + e)))"
    unfolding fs i_def [symmetric] by (simp only: fs i_def [symmetric] simp_thms)
qed

theorem ai_factor_raw_score_inverted_contribution_witness:
  "analyzeAiContent 0 sampleAi2 ''u'' [''u'' \<mapsto> sampleResult] ''u''
     = Some (recalculateResult 0 (mergeAiFactor sampleAi2 sampleResult))
   \<and> findIndex isAiFactor (factors (recalculateResult 0 (mergeAiFactor sampleAi2 sampleResult))) = 2
   \<and> score (factors (recalculateResult 0 (mergeAiFactor sampleAi2 sampleResult)) ! 2) = 20
   \<and> weight (factors (recalculateResult 0 (mergeAiFactor sampleAi2 sampleResult)) ! 2) = Some 0.25
   \<and> fst (accumulateInverted
             (factors (recalculateResult 0 (mergeAiFactor sampleAi2 sampleResult))) (Some 0, Some 0))
       = Some 55
   \<and> hasPositiveWeight (factors (recalculateResult 0 (mergeAiFactor sampleAi2 sampleResult)))
   \<and> trustScore (recalculateResult 0 (mergeAiFactor sampleAi2 sampleResult)) = Some 73"
  using ai_factor_raw_score_inverted_contribution [where e = 0 and ai = sampleAi2 and u = "''u''"
      and vr = "[''u'' \<mapsto> sampleResult]"
      and res' = "recalculateResult 0 (mergeAiFactor sampleAi2 sampleResult)"]
  by (simp add: sample_defs eval_defs)

lemma mergeAiFactor_names:
  "map name (factors (mergeAiFactor ai r)) =
     (if 0 \<le> findIndex isAiFactor (factors r) then map name (factors r)
      else map name (factors r) @ [''AI Content Analysis''])"
proof (cases "0 \<le> findIndex isAiFactor (factors r)")
  case True
  define i where "i = nat (findIndex isAiFactor (factors r))"
  have "i < length (factors r)"
    using True findIndex_upper [of isAiFactor "factors r"] by (simp add: i_def)
  then have "(map name (factors r))[i := name (factors r ! i)] = map name (factors r)"
    by (simp add: list_update_same_conv)
  with True show ?thesis
    by (simp add: mergeAiFactor_factors map_update i_def)
next
  case False
  then show ?thesis by (simp add: mergeAiFactor_factors)
qed

text \<open>
  Claim C4. The merge of the late factor replaces an existing factor of the same name in
  place, at its position (the names of the list stay as they are), and appends the factor
  when there is none. A second merge therefore finds the factor and leaves the length of the
  list unchanged. The trust score is recomputed from the new factor list after each of the
  two mutations.
\<close>

theorem merge_replaces_in_place_or_appends:
  "vr u = Some res \<and> analyzeAiContent e ai u vr u = Some res'
     \<and> analyzeAiContent e' ai' u (analyzeAiContent e ai u vr) u = Some res'' \<longrightarrow>
   (0 \<le> findIndex isAiFactor (factors res))
      = (''AI Content Analysis'' \<in> set (map name (factors res)))
   \<and> factors res' =
       (if 0 \<le> findIndex isAiFactor (factors res)
        then (factors res)[nat (findIndex isAiFactor (factors res)) :=
               (factors res ! nat (findIndex isAiFactor (factors res)))
                 \<lparr>score := aiScore ai,
                  description := ''Detection of AI-generated content'',
                  details := aiDetails ai,
                  weight := Some 0.25\<rparr>]
        else factors res @
               [\<lparr>name = ''AI Content Analysis'',
                 description = ''Detection of AI-generated content'',
                 score = aiScore ai,
                 weight = Some 0.25,
                 details = aiDetails ai,
                 icon = None\<rparr>])
   \<and> map name (factors res') =
       (if 0 \<le> findIndex isAiFactor (factors res) then map name (factors res)
        else map name (factors res) @ [''AI Content Analysis''])
   \<and> 0 \<le> findIndex isAiFactor (factors res')
   \<and> factors res'' =
       (factors res')[nat (findIndex isAiFactor (factors res')) :=
          (factors res' ! nat (findIndex isAiFactor (factors res')))
            \<lparr>score := aiScore ai',
             description := ''Detection of AI-generated content'',
             details := aiDetails ai',
             weight := Some 0.25\<rparr>]
   \<and> length (factors res'') = length (factors res')
   \<and> trustScore res' =
       (if hasPositiveWeight (factors res')
        then Some (Math_round (weightedSum factorScore (factors res')
                                / totalWeight (factors res') + e))
        else trustScore res)
   \<and> trustScore res'' =
       (if hasPositiveWeight (factors res'')
        then Some (Math_round (weightedSum factorScore (factors res'')
                                / totalWeight (factors res'') + e'))
        else trustScore res')"
proof
  assume a: "vr u = Some res \<and> analyzeAiContent e ai u vr u = Some res'
     \<and> analyzeAiContent e' ai' u (analyzeAiContent e ai u vr) u = Some res''"
  then have res': "res' = recalculateResult e (mergeAiFactor ai res)"
    using analyzeAiContent_stored [of vr u res e ai] by simp
  from a have res'': "res'' = recalculateResult e' (mergeAiFactor ai' res')"
    using analyzeAiContent_stored [of "analyzeAiContent e ai u vr" u res' e' ai'] by simp
  have f': "factors res' = factors (mergeAiFactor ai res)"
    by (simp add: res' recalculateResult_factors)
  have f'': "factors res'' = factors (mergeAiFactor ai' res')"
    by (simp add: res'' recalculateResult_factors)
  have found': "0 \<le> findIndex isAiFactor (factors res')"
    by (simp add: f' mergeAiFactor_found)
  have c1: "(0 \<le> findIndex isAiFactor (factors res))
      = (''AI Content Analysis'' \<in> set (map name (factors res)))"
    by (force simp add: findIndex_found_iff isAiFactor_def)
  have c2: "factors res' =
       (if 0 \<le> findIndex isAiFactor (factors res)
        then (factors res)[nat (findIndex isAiFactor (factors res)) :=
               (factors res ! nat (findIndex isAiFactor (factors res)))
                 \<lparr>score := aiScore ai,
                  description := ''Detection of AI-generated content'',
                  details := aiDetails ai,
                  weight := Some 0.25\<rparr>]
        else factors res @
               [\<lparr>name = ''AI Content Analysis'',
                 description = ''Detection of AI-generated content'',
                 score = aiScore ai,
                 weight = Some 0.25,
                 details = aiDetails ai,
                 icon = None\<rparr>])"
    by (simp only: f' mergeAiFactor_factors)
  have c3: "map name (factors res') =
       (if 0 \<le> findIndex isAiFactor (factors res) then map name (factors res)
        else map name (factors res) @ [''AI Content Analysis''])"
    by (simp only: f' mergeAiFactor_names)
  have c5: "factors res'' =
       (factors res')[nat (findIndex isAiFactor (factors res')) :=
          (factors res' ! nat (findIndex isAiFactor (factors res')))
            \<lparr>score := aiScore ai',
             description := ''Detection of AI-generated content'',
             details := aiDetails ai',
             weight := Some 0.25\<rparr>]"
    using found' by (simp only: f'' mergeAiFactor_factors if_True)
  have c6: "length (factors res'') = length (factors res')"
    using found' by (simp add: f'' mergeAiFactor_length)
  have c7: "trustScore res' =
       (if hasPositiveWeight (factors res')
        then Some (Math_round (weightedSum factorScore (factors res')
                                / totalWeight (factors res') + e))
        else trustScore res)"
    by (simp add: res' recalculateResult_trustScore recalculateResult_factors
        mergeAiFactor_trustScore)
  have c8: "trustScore res'' =
       (if hasPositiveWeight (factors res'')
        then Some (Math_round (weightedSum factorScore (factors res'')
                                / totalWeight (factors res'') + e'))
        else trustScore res')"
    by (simp add: res'' recalculateResult_trustScore recalculateResult_factors
        mergeAiFactor_trustScore)
  from c1 c2 c3 found' c5 c6 c7 c8
  show "(0 \<le> findIndex isAiFactor (factors res))
      = (''AI Content Analysis'' \<in> set (map name (factors res)))
   \<and> factors res' =
       (if 0 \<le> findIndex isAiFactor (factors res)
        then (factors res)[nat (findIndex isAiFactor (factors res)) :=
               (factors res ! nat (findIndex isAiFactor (factors res)))
                 \<lparr>score := aiScore ai,
                  description := ''Detection of AI-generated content'',
                  details := aiDetails ai,
                  weight := Some 0.25\<rparr>]
        else factors res @
               [\<lparr>name = ''AI Content Analysis'',
                 description = ''Detection of AI-generated content'',
                 score = aiScore ai,
                 weight = Some 0.25,
                 details = aiDetails ai,
                 icon = None\<rparr>])
   \<and> map name (factors res') =
       (if 0 \<le> findIndex isAiFactor (factors res) then map name (factors res)
        else map name (factors res) @ [''AI Content Analysis''])
   \<and> 0 \<le> findIndex isAiFactor (factors res')
   \<and> factors res'' =
       (factors res')[nat (findIndex isAiFactor (factors res')) :=
          (factors res' ! nat (findIndex isAiFactor (factors res')))
            \<lparr>score := aiScore ai',
             description := ''Detection of AI-generated content'',
             details := aiDetails ai',
             weight := Some 0.25\<rparr>]
   \<and> length (factors res'') = length (factors res')
   \<and> trustScore res' =
       (if hasPositiveWeight (factors res')
        then Some (Math_round (weightedSum factorScore (factors res')
                                / totalWeight (factors res') + e))
        else trustScore res)
   \<and> trustScore res'' =
       (if hasPositiveWeight (factors res'')
        then Some (Math_round (weightedSum factorScore (factors res'')
                                / totalWeight (factors res'') + e'))
        else trustScore res')"
    by blast
qed

theorem merge_replaces_in_place_or_appends_witness:
  "[''u'' \<mapsto> sampleResult] ''u'' = Some sampleResult
   \<and> analyzeAiContent 0 sampleAi ''u'' [''u'' \<mapsto> sampleResult] ''u''
       = Some (recalculateResult 0 (mergeAiFactor sampleAi sampleResult))
   \<and> analyzeAiContent 0 sampleAi2 ''u''
         (analyzeAiContent 0 sampleAi ''u'' [''u'' \<mapsto> sampleResult]) ''u''
       = Some (recalculateResult 0 (mergeAiFactor sampleAi2
                 (recalculateResult 0 (mergeAiFactor sampleAi sampleResult))))
   \<and> map name (factors sampleResult) = [''Source Verification'', ''Temporal Freshness'']
   \<and> map name (factors (recalculateResult 0 (mergeAiFactor sampleAi sampleResult)))
       = [''Source Verification'', ''Temporal Freshness'', ''AI Content Analysis'']
   \<and> map name (factors (recalculateResult 0 (mergeAiFactor sampleAi2
                 (recalculateResult 0 (mergeAiFactor sampleAi sampleResult)))))
       = [''Source Verification'', ''Temporal Freshness'', ''AI Content Analysis'']
   \<and> map score (factors (recalculateResult 0 (mergeAiFactor sampleAi sampleResult)))
       = [100, 0, 100]
   \<and> map score (factors (recalculateResult 0 (mergeAiFactor sampleAi2
                 (recalculateResult 0 (mergeAiFactor sampleAi sampleResult)))))
       = [100, 0, 20]
   \<and> trustScore (recalculateResult 0 (mergeAiFactor sampleAi sampleResult)) = Some 47
   \<and> trustScore (recalculateResult 0 (mergeAiFactor sampleAi2
                 (recalculateResult 0 (mergeAiFactor sampleAi sampleResult)))) = Some 73"
  using merge_replaces_in_place_or_appends [where vr = "[''u'' \<mapsto> sampleResult]"
      and u = "''u''" and res = sampleResult and ai = sampleAi and ai' = sampleAi2
      and e = 0 and e' = 0
      and res' = "recalculateResult 0 (mergeAiFactor sampleAi sampleResult)"
      and res'' = "recalculateResult 0 (mergeAiFactor sampleAi2
                     (recalculateResult 0 (mergeAiFactor sampleAi sampleResult)))"]
  by (simp add: sample_defs eval_defs)

end
